theory Spec2Isabelle
  imports Main "HOL-Library.Word"
begin

section \<open>callcache: duplicate call suppression with a cache\<close>

text \<open>
  A shallow embedding of \<^verbatim>\<open>callcache.go\<close>. The embedding is sequential: one
  function of the source is one state transition, and the places where the source
  gives up a lock are the places where the model is cut into separate transitions.

  \<^item> Go's \<^verbatim>\<open>int64\<close> is \<open>64 word\<close>: subtraction wraps, and the comparisons of the
    source are the signed ones (\<open><s\<close>).
  \<^item> Go's \<^verbatim>\<open>interface{}\<close> is \<open>'v option\<close>, with \<open>None\<close> the nil interface; Go's
    \<^verbatim>\<open>error\<close> is \<open>'e option\<close>, with \<open>None\<close> the nil error.
  \<^item> The caller's \<^verbatim>\<open>fn func() (interface{}, error)\<close> is a closure over the
    caller's own state. It is a transformer of a world \<open>'w\<close> that also yields the
    returned pair, so a world that differs from the one before shows that \<open>fn\<close> ran.
  \<^item> \<^verbatim>\<open>time.Now().UnixNano()\<close> is read once in \<^verbatim>\<open>call.do\<close> and once more in
    \<^verbatim>\<open>call.update\<close>. Each reading is a parameter of the function that makes it.
\<close>

type_synonym int64 = "64 word"

type_synonym ('v, 'e) ret = "'v option \<times> 'e option"

type_synonym ('v, 'e, 'w) fn = "'w \<Rightarrow> ('v, 'e) ret \<times> 'w"

text \<open>
  \<^verbatim>\<open>type call struct\<close>. The two locks carry no data. The \<^verbatim>\<open>singleflight.Group\<close> holds
  the calls in flight, and no call is in flight between two transitions of a sequential
  run, so that \<^verbatim>\<open>group.Do("update", f)\<close> runs \<open>f\<close> and returns what it returns.
\<close>

record 'v call =
  expiration :: int64
  updateInterval :: int64
  result :: "'v option"
  lastUpdate :: int64

text \<open>
  \<^verbatim>\<open>type Dispatcher struct\<close>. The Go map holds pointers to calls; \<^verbatim>\<open>call.do\<close> changes the
  call it is given in place, which the model writes back under the same key. A key
  that is absent reads as the nil pointer, \<open>None\<close>. The fields \<open>d_expiration\<close> and
  \<open>d_updateInterval\<close> are the source's \<^verbatim>\<open>expiration\<close> and \<^verbatim>\<open>updateInterval\<close>.
\<close>

record 'v Dispatcher =
  d_expiration :: int64
  d_updateInterval :: int64
  calls :: "string \<rightharpoonup> 'v call"

datatype panic = NilPointerDereference

text \<open>\<^verbatim>\<open>NewDispatcher\<close>: a \<^verbatim>\<open>time.Duration\<close> is an \<^verbatim>\<open>int64\<close> of nanoseconds.\<close>

definition NewDispatcher :: "int64 \<Rightarrow> int64 \<Rightarrow> 'v Dispatcher" where
  "NewDispatcher e u = \<lparr>d_expiration = e, d_updateInterval = u, calls = Map.empty\<rparr>"

text \<open>
  The test of line 79, on the reading \<open>now\<close> of line 78:
  \<^verbatim>\<open>t < c.expiration && (c.updateInterval == 0 || t < c.updateInterval)\<close>.
\<close>

definition still_fresh :: "int64 \<Rightarrow> 'v call \<Rightarrow> bool" where
  "still_fresh now c =
     (let t = now - lastUpdate c
      in t <s expiration c \<and> (updateInterval c = 0 \<or> t <s updateInterval c))"

text \<open>
  \<^verbatim>\<open>call.update\<close> (lines 76 to 93), with \<open>now\<close> the reading of line 78. It returns the
  pair handed to the caller, the call and the world.
\<close>

definition call_update ::
  "int64 \<Rightarrow> ('v, 'e, 'w) fn \<Rightarrow> 'v call \<Rightarrow> 'w \<Rightarrow> ('v, 'e) ret \<times> 'v call \<times> 'w" where
  "call_update now fn c w =
     (if still_fresh now c then ((result c, None), c, w)
      else (case fn w of
              ((v, err), w') \<Rightarrow>
                if err = None then ((v, err), c\<lparr>result := v, lastUpdate := now\<rparr>, w')
                else ((v, err), c, w')))"

text \<open>
  \<^verbatim>\<open>go c.update(fn)\<close> (line 71): the detached task, run at the reading \<open>now\<close> of its
  own line 78. What \<^verbatim>\<open>update\<close> returns is dropped.
\<close>

definition go_update :: "int64 \<Rightarrow> ('v, 'e, 'w) fn \<Rightarrow> 'v call \<Rightarrow> 'w \<Rightarrow> 'v call \<times> 'w" where
  "go_update now fn c w = snd (call_update now fn c w)"

text \<open>
  \<^verbatim>\<open>call.do\<close> (lines 59 to 74), with \<open>now\<close> the reading of line 60 and \<open>now'\<close> the
  reading that \<^verbatim>\<open>update\<close> makes when line 68 calls it. The last component tells
  whether line 71 started the detached task.
\<close>

definition call_do ::
  "int64 \<Rightarrow> int64 \<Rightarrow> ('v, 'e, 'w) fn \<Rightarrow> 'v call \<Rightarrow> 'w
     \<Rightarrow> ('v, 'e) ret \<times> 'v call \<times> 'w \<times> bool" where
  "call_do now now' fn c w =
     (let v = result c; t = now - lastUpdate c
      in if expiration c <s t then
           (case call_update now' fn c w of (r, c', w') \<Rightarrow> (r, c', w', False))
         else if 0 <s updateInterval c \<and> updateInterval c <s t then ((v, None), c, w, True)
         else ((v, None), c, w, False))"

text \<open>
  \<^verbatim>\<open>Dispatcher.Do\<close> (lines 33 to 41) is two transitions. \<open>Do_lock\<close> is lines 34 to 38,
  under \<^verbatim>\<open>d.mu\<close>. \<open>Do_call\<close> is line 40, after the lock is given up: it reads
  \<^verbatim>\<open>d.calls[key]\<close> again and calls \<^verbatim>\<open>do\<close> on what it finds; on the nil pointer,
  \<^verbatim>\<open>c.mu.RLock()\<close> panics.
\<close>

definition new_call :: "'v Dispatcher \<Rightarrow> 'v call" where
  "new_call d =
     \<lparr>expiration = d_expiration d, updateInterval = d_updateInterval d,
      result = None, lastUpdate = 0\<rparr>"

definition Do_lock :: "string \<Rightarrow> 'v Dispatcher \<Rightarrow> 'v Dispatcher" where
  "Do_lock key d =
     (if calls d key = None then d\<lparr>calls := (calls d)(key \<mapsto> new_call d)\<rparr> else d)"

definition Do_call ::
  "int64 \<Rightarrow> int64 \<Rightarrow> string \<Rightarrow> ('v, 'e, 'w) fn \<Rightarrow> 'v Dispatcher \<Rightarrow> 'w
     \<Rightarrow> panic + (('v, 'e) ret \<times> 'v Dispatcher \<times> 'w \<times> bool)" where
  "Do_call now now' key fn d w =
     (case calls d key of
        None \<Rightarrow> Inl NilPointerDereference
      | Some c \<Rightarrow>
          (case call_do now now' fn c w of
             (r, c', w', bg) \<Rightarrow> Inr (r, d\<lparr>calls := (calls d)(key \<mapsto> c')\<rparr>, w', bg)))"

definition Dispatcher_Do ::
  "int64 \<Rightarrow> int64 \<Rightarrow> string \<Rightarrow> ('v, 'e, 'w) fn \<Rightarrow> 'v Dispatcher \<Rightarrow> 'w
     \<Rightarrow> panic + (('v, 'e) ret \<times> 'v Dispatcher \<times> 'w \<times> bool)" where
  "Dispatcher_Do now now' key fn d w = Do_call now now' key fn (Do_lock key d) w"

text \<open>\<^verbatim>\<open>Dispatcher.Remove\<close> (lines 44 to 48).\<close>

definition Dispatcher_Remove :: "string \<Rightarrow> 'v Dispatcher \<Rightarrow> 'v Dispatcher" where
  "Dispatcher_Remove key d = d\<lparr>calls := (calls d)(key := None)\<rparr>"

section \<open>The transitions, one case at a time\<close>


lemma call_update_stale:
  "\<not> still_fresh now c \<Longrightarrow>
   call_update now fn c w =
     (fst (fn w),
      (if snd (fst (fn w)) = None then c\<lparr>result := fst (fst (fn w)), lastUpdate := now\<rparr> else c),
      snd (fn w))"
  by (simp add: call_update_def split: prod.splits)


lemma call_do_expired:
  "expiration c <s now - lastUpdate c \<Longrightarrow>
   call_do now now' fn c w =
     (case call_update now' fn c w of (r, c', w') \<Rightarrow> (r, c', w', False))"
  by (simp add: call_do_def Let_def)

lemma call_do_valid:
  "\<not> expiration c <s now - lastUpdate c \<Longrightarrow>
   call_do now now' fn c w =
     ((result c, None), c, w, 0 <s updateInterval c \<and> updateInterval c <s now - lastUpdate c)"
  by (simp add: call_do_def Let_def)

lemma Do_lock_present: "calls (Do_lock key d) key \<noteq> None"
  by (simp add: Do_lock_def)

lemma Dispatcher_Do_absent:
  "calls d key = None \<Longrightarrow>
   Dispatcher_Do now now' key fn d w =
     (case call_do now now' fn (new_call d) w of
        (r, c', w', bg) \<Rightarrow> Inr (r, d\<lparr>calls := (calls d)(key \<mapsto> c')\<rparr>, w', bg))"
  by (simp add: Dispatcher_Do_def Do_call_def Do_lock_def split: prod.splits)

lemma Dispatcher_Do_returns:
  "\<exists>x. Dispatcher_Do now now' key fn d w = Inr x"
  by (cases "calls d key")
    (auto simp add: Dispatcher_Do_def Do_call_def Do_lock_def split: prod.splits)

lemma still_fresh_new_call:
  "still_fresh now (new_call d) \<longleftrightarrow>
     now <s d_expiration d \<and> (d_updateInterval d = 0 \<or> now <s d_updateInterval d)"
  by (simp add: still_fresh_def new_call_def)

lemma new_call_fields [simp]:
  "expiration (new_call d) = d_expiration d"
  "updateInterval (new_call d) = d_updateInterval d"
  "result (new_call d) = None"
  "lastUpdate (new_call d) = 0"
  by (simp_all add: new_call_def)

lemma Remove_fields [simp]:
  "d_expiration (Dispatcher_Remove key d) = d_expiration d"
  "d_updateInterval (Dispatcher_Remove key d) = d_updateInterval d"
  "calls (Dispatcher_Remove key d) = (calls d)(key := None)"
  by (simp_all add: Dispatcher_Remove_def)


lemma call_update_failed:
  "\<not> still_fresh now c \<Longrightarrow> snd (fst (fn w)) \<noteq> None \<Longrightarrow>
   call_update now fn c w = (fst (fn w), c, snd (fn w))"
  by (auto simp add: call_update_stale)

lemma call_update_succeeded:
  "\<not> still_fresh now c \<Longrightarrow> fn w = ((v, None), w') \<Longrightarrow>
   call_update now fn c w = ((v, None), c\<lparr>result := v, lastUpdate := now\<rparr>, w')"
  by (simp add: call_update_stale)



lemma Dispatcher_Do_absent_valid:
  assumes "calls d key = None" and "now \<le>s d_expiration d"
  shows "Dispatcher_Do now now' key fn d w =
     Inr ((None, None), d\<lparr>calls := (calls d)(key \<mapsto> new_call d)\<rparr>, w,
          0 <s d_updateInterval d \<and> d_updateInterval d <s now)"
  using assms
  by (simp add: Dispatcher_Do_absent call_do_valid signed.not_less)

lemma still_fresh_nonnegative_interval:
  "0 \<le>s updateInterval c \<Longrightarrow>
   still_fresh now c \<longleftrightarrow>
     now - lastUpdate c <s expiration c
     \<and> (0 <s updateInterval c \<longrightarrow> now - lastUpdate c <s updateInterval c)"
  by (auto simp add: still_fresh_def Let_def signed.le_less)


section \<open>The staleness policy of call.do\<close>



section \<open>The update path\<close>

text \<open>
  C3. When \<^verbatim>\<open>update\<close> calls \<open>fn\<close> and \<open>fn\<close> fails, \<^verbatim>\<open>result\<close> and \<^verbatim>\<open>lastUpdate\<close> are
  what they were, and the caller of \<^verbatim>\<open>do\<close> that went through \<^verbatim>\<open>update\<close> is handed the
  failure. A later call works on the same call as before, so it computes the elapsed
  time from the old \<^verbatim>\<open>lastUpdate\<close>; and a call that was never populated and was found
  expired at the reading \<open>now\<close> is found expired again at any reading \<open>now2\<close> that
  is not earlier, and goes through \<^verbatim>\<open>update\<close> again.
\<close>

theorem failed_update_keeps_cache:
  fixes c :: "'v call" and fn fn2 :: "('v, 'e, 'w) fn"
  assumes stale: "\<not> still_fresh now' c" and failed: "snd (fst (fn w)) \<noteq> None"
  shows
    "call_update now' fn c w = (fst (fn w), c, snd (fn w))
     \<and> (expiration c <s now - lastUpdate c \<longrightarrow>
          call_do now now' fn c w = (fst (fn w), c, snd (fn w), False))
     \<and> call_do now2 now2' fn2 (fst (snd (call_update now' fn c w))) w2 =
          call_do now2 now2' fn2 c w2
     \<and> (lastUpdate c = 0 \<and> expiration c <s now \<and> now \<le>s now2 \<longrightarrow>
          call_do now2 now2' fn2 (fst (snd (call_update now' fn c w))) w2 =
            (case call_update now2' fn2 c w2 of (r, c', w') \<Rightarrow> (r, c', w', False)))"
proof -
  have upd: "call_update now' fn c w = (fst (fn w), c, snd (fn w))"
    using stale failed by (rule call_update_failed)
  have sync: "call_do now now' fn c w = (fst (fn w), c, snd (fn w), False)"
    if "expiration c <s now - lastUpdate c"
    using that by (simp add: call_do_expired upd)
  have again: "call_do now2 now2' fn2 c w2 =
      (case call_update now2' fn2 c w2 of (r, c', w') \<Rightarrow> (r, c', w', False))"
    if "lastUpdate c = 0 \<and> expiration c <s now \<and> now \<le>s now2"
  proof -
    from that have "expiration c <s now2 - lastUpdate c"
      by (auto intro: signed.less_le_trans)
    then show ?thesis by (rule call_do_expired)
  qed
  show ?thesis
    using sync again by (simp add: upd)
qed

theorem failed_update_keeps_cache_witness:
  "call_update 1001 (\<lambda>n::nat. ((None :: nat option, Some ()), Suc n))
       \<lparr>expiration = 60, updateInterval = 0, result = None, lastUpdate = 0\<rparr> 0
     = ((None, Some ()),
        \<lparr>expiration = 60, updateInterval = 0, result = None, lastUpdate = 0\<rparr>, 1)
   \<and> call_do 1000 1001 (\<lambda>n::nat. ((None :: nat option, Some ()), Suc n))
       \<lparr>expiration = 60, updateInterval = 0, result = None, lastUpdate = 0\<rparr> 0
     = ((None, Some ()),
        \<lparr>expiration = 60, updateInterval = 0, result = None, lastUpdate = 0\<rparr>, 1, False)
   \<and> call_do 2000 2001 (\<lambda>n::nat. ((Some (7::nat), None :: unit option), Suc n))
       \<lparr>expiration = 60, updateInterval = 0, result = None, lastUpdate = 0\<rparr> 1
     = ((Some 7, None),
        \<lparr>expiration = 60, updateInterval = 0, result = Some 7, lastUpdate = 2001\<rparr>, 2, False)"
  using failed_update_keeps_cache
    [of 1001 "\<lparr>expiration = 60, updateInterval = 0, result = None :: nat option, lastUpdate = 0\<rparr>"
      "\<lambda>n::nat. ((None :: nat option, Some ()), Suc n)" 0 1000 2000 2001
      "\<lambda>n::nat. ((Some (7::nat), None :: unit option), Suc n)" 1]
  by (simp add: still_fresh_def call_update_def word_sless_alt word_sle_eq)

text \<open>
  C4. The test of line 79 treats only \<^verbatim>\<open>updateInterval == 0\<close> as "no interval", where
  line 70 and the comment on \<^verbatim>\<open>NewDispatcher\<close> treat every interval that is not greater
  than 0 so. With \<^verbatim>\<open>updateInterval = -1\<close> and an elapsed time of 5 below the expiration
  of 60, \<^verbatim>\<open>update\<close> does not skip \<open>fn\<close>: it calls it, returns its value and stores it.
  For an interval that is not negative the test is the one the property describes
  (\<open>still_fresh_nonnegative_interval\<close>).
\<close>

theorem update_recheck_negative_interval:
  "1005 - 1000 <s (60 :: int64) \<and> \<not> 0 <s (- 1 :: int64)
   \<and> call_update 1005 (\<lambda>n::nat. ((Some (2::nat), None :: unit option), Suc n))
       \<lparr>expiration = 60, updateInterval = - 1, result = Some 1, lastUpdate = 1000\<rparr> 0
     = ((Some 2, None),
        \<lparr>expiration = 60, updateInterval = - 1, result = Some 2, lastUpdate = 1005\<rparr>, 1)"
  by (simp add: call_update_def still_fresh_def word_sless_alt)

text \<open>
  C10. When \<^verbatim>\<open>update\<close> calls \<open>fn\<close> and \<open>fn\<close> fails, the pair that \<^verbatim>\<open>update\<close> returns, and
  that \<^verbatim>\<open>do\<close> hands to its caller on the path through \<^verbatim>\<open>update\<close>, is the pair \<open>fn\<close>
  returned: the value is the one \<open>fn\<close> returned, not the cached one.
\<close>

theorem failed_update_returns_fn_pair:
  fixes c :: "'v call" and fn :: "('v, 'e, 'w) fn"
  assumes stale: "\<not> still_fresh now' c" and failed: "fn w = ((v, Some e), w')"
  shows
    "fst (call_update now' fn c w) = (v, Some e)
     \<and> (expiration c <s now - lastUpdate c \<longrightarrow> fst (call_do now now' fn c w) = (v, Some e))"
proof -
  have "call_update now' fn c w = ((v, Some e), c, w')"
    using stale failed by (simp add: call_update_stale)
  then show ?thesis
    by (simp add: call_do_expired)
qed

theorem failed_update_returns_fn_pair_witness:
  "fst (call_update 1062 (\<lambda>n::nat. ((Some (7::nat), Some ()), Suc n))
       \<lparr>expiration = 60, updateInterval = 10, result = Some 1, lastUpdate = 1000\<rparr> 0)
     = (Some 7, Some ())
   \<and> (60 :: int64) <s 1061 - 1000
   \<and> fst (call_do 1061 1062 (\<lambda>n::nat. ((Some (7::nat), Some ()), Suc n))
       \<lparr>expiration = 60, updateInterval = 10, result = Some 1, lastUpdate = 1000\<rparr> 0)
     = (Some 7, Some ())"
  using failed_update_returns_fn_pair
    [of 1062 "\<lparr>expiration = 60, updateInterval = 10, result = Some (1::nat), lastUpdate = 1000\<rparr>"
      "\<lambda>n::nat. ((Some (7::nat), Some ()), Suc n)" 0 "Some 7" "()" 1 1061]
  by (simp add: still_fresh_def word_sless_alt)

text \<open>
  C7. When \<^verbatim>\<open>update\<close> calls \<open>fn\<close> and \<open>fn\<close> succeeds, one transition stores the value
  as \<^verbatim>\<open>result\<close> and the reading \<open>now\<close> of line 78, made before \<open>fn\<close> ran, as
  \<^verbatim>\<open>lastUpdate\<close>. So \<^verbatim>\<open>lastUpdate\<close> is not later than any reading \<open>finished\<close> of the
  clock that is not before \<open>now\<close>, such as the time at which \<open>fn\<close> returned.
\<close>

theorem successful_update_stores_entry_time:
  fixes c :: "'v call" and fn :: "('v, 'e, 'w) fn"
  assumes stale: "\<not> still_fresh now c" and ok: "fn w = ((v, None), w')"
    and later: "now \<le>s finished"
  shows
    "call_update now fn c w = ((v, None), c\<lparr>result := v, lastUpdate := now\<rparr>, w')
     \<and> result (fst (snd (call_update now fn c w))) = v
     \<and> lastUpdate (fst (snd (call_update now fn c w))) = now
     \<and> lastUpdate (fst (snd (call_update now fn c w))) \<le>s finished"
proof -
  have "call_update now fn c w = ((v, None), c\<lparr>result := v, lastUpdate := now\<rparr>, w')"
    using stale ok by (rule call_update_succeeded)
  then show ?thesis
    using later by simp
qed

theorem successful_update_stores_entry_time_witness:
  "(1061 :: int64) \<le>s 1099
   \<and> call_update 1061 (\<lambda>n::nat. ((Some (2::nat), None :: unit option), n + 38))
       \<lparr>expiration = 60, updateInterval = 10, result = Some 1, lastUpdate = 1000\<rparr> 1061
     = ((Some 2, None),
        \<lparr>expiration = 60, updateInterval = 10, result = Some 2, lastUpdate = 1061\<rparr>, 1099)
   \<and> lastUpdate (fst (snd (call_update 1061
         (\<lambda>n::nat. ((Some (2::nat), None :: unit option), n + 38))
         \<lparr>expiration = 60, updateInterval = 10, result = Some 1, lastUpdate = 1000\<rparr> 1061)))
       \<le>s 1099"
  using successful_update_stores_entry_time
    [of 1061 "\<lparr>expiration = 60, updateInterval = 10, result = Some (1::nat), lastUpdate = 1000\<rparr>"
      "\<lambda>n::nat. ((Some (2::nat), None :: unit option), n + 38)" 1061 "Some 2" 1099 1099]
  by (simp add: still_fresh_def word_sless_alt word_sle_eq)

section \<open>Keys that have no call\<close>







text \<open>
  C9 as stated fails: with an expiration that is not below the clock reading, \<^verbatim>\<open>Do\<close>
  on a key that has no call can still lead to a call of \<open>fn\<close>. With an update interval
  of 10 seconds, \<^verbatim>\<open>Do\<close> returns the nil value and the nil error and starts the detached
  update, and the detached update runs \<open>fn\<close> (the world goes from 0 to 1) and stores
  its value.
\<close>

theorem never_populated_background_runs_fn:
  "Dispatcher_Do 1700000000000000000 1700000000000000001 ''key''
       (\<lambda>n::nat. ((Some (1::nat), None :: unit option), Suc n))
       (NewDispatcher 3153600000000000000 10000000000) 0
     = Inr ((None, None),
            \<lparr>d_expiration = 3153600000000000000, d_updateInterval = 10000000000,
             calls = [''key'' \<mapsto> \<lparr>expiration = 3153600000000000000,
                                  updateInterval = 10000000000,
                                  result = None, lastUpdate = 0\<rparr>]\<rparr>,
            0, True)
   \<and> go_update 1700000000000000002
       (\<lambda>n::nat. ((Some (1::nat), None :: unit option), Suc n))
       \<lparr>expiration = 3153600000000000000, updateInterval = 10000000000,
        result = None, lastUpdate = 0\<rparr> 0
     = (\<lparr>expiration = 3153600000000000000, updateInterval = 10000000000,
         result = Some 1, lastUpdate = 1700000000000000002\<rparr>, 1)"
  by (simp add: Dispatcher_Do_def Do_lock_def Do_call_def call_do_def NewDispatcher_def
      new_call_def go_update_def call_update_def still_fresh_def word_sless_alt)

text \<open>
  C9, as amended. For a key that has no call and an expiration that is not below the
  reading of line 60, \<^verbatim>\<open>Do\<close> returns the nil value and the nil error without running
  \<open>fn\<close> itself. It starts the detached update exactly when the update interval is
  above 0 and below the reading; a detached update that runs at a reading not below
  that interval does run \<open>fn\<close>.
\<close>

theorem never_populated_within_expiration:
  fixes d :: "'v Dispatcher" and fn :: "('v, 'e, 'w) fn"
  assumes fresh_key: "calls d key = None" and within: "now \<le>s d_expiration d"
  shows
    "Dispatcher_Do now now' key fn d w =
       Inr ((None, None), d\<lparr>calls := (calls d)(key \<mapsto> new_call d)\<rparr>, w,
            0 <s d_updateInterval d \<and> d_updateInterval d <s now)
     \<and> (0 <s d_updateInterval d \<and> d_updateInterval d \<le>s now'' \<longrightarrow>
          go_update now'' fn (new_call d) w =
            (if snd (fst (fn w)) = None
             then (new_call d)\<lparr>result := fst (fst (fn w)), lastUpdate := now''\<rparr>
             else new_call d,
             snd (fn w)))"
proof (intro conjI impI)
  show "Dispatcher_Do now now' key fn d w =
       Inr ((None, None), d\<lparr>calls := (calls d)(key \<mapsto> new_call d)\<rparr>, w,
            0 <s d_updateInterval d \<and> d_updateInterval d <s now)"
    using fresh_key within by (rule Dispatcher_Do_absent_valid)
next
  assume due: "0 <s d_updateInterval d \<and> d_updateInterval d \<le>s now''"
  then have "d_updateInterval d \<noteq> 0" and "\<not> now'' <s d_updateInterval d"
    by (auto simp add: signed.not_less)
  then have "\<not> still_fresh now'' (new_call d)"
    by (simp add: still_fresh_new_call)
  then show "go_update now'' fn (new_call d) w =
            (if snd (fst (fn w)) = None
             then (new_call d)\<lparr>result := fst (fst (fn w)), lastUpdate := now''\<rparr>
             else new_call d,
             snd (fn w))"
    by (simp add: go_update_def call_update_stale)
qed

theorem never_populated_within_expiration_witness:
  "(1700000000000000000 :: int64) \<le>s 3153600000000000000
   \<and> Dispatcher_Do 1700000000000000000 1700000000000000001 ''key''
       (\<lambda>n::nat. ((Some (1::nat), None :: unit option), Suc n))
       (NewDispatcher 3153600000000000000 0) 0
     = Inr ((None, None),
            \<lparr>d_expiration = 3153600000000000000, d_updateInterval = 0,
             calls = [''key'' \<mapsto> \<lparr>expiration = 3153600000000000000, updateInterval = 0,
                                  result = None, lastUpdate = 0\<rparr>]\<rparr>,
            0, False)
   \<and> (0 :: int64) <s 10000000000
   \<and> (10000000000 :: int64) \<le>s 1700000000000000002
   \<and> go_update 1700000000000000002
       (\<lambda>n::nat. ((Some (1::nat), None :: unit option), Suc n))
       (new_call (NewDispatcher 3153600000000000000 10000000000)) 0
     = (\<lparr>expiration = 3153600000000000000, updateInterval = 10000000000,
         result = Some 1, lastUpdate = 1700000000000000002\<rparr>, 1)"
  using
    never_populated_within_expiration
      [of "NewDispatcher 3153600000000000000 0 :: nat Dispatcher" "''key''"
        1700000000000000000 1700000000000000001
        "\<lambda>n::nat. ((Some (1::nat), None :: unit option), Suc n)" 0 1700000000000000002]
    never_populated_within_expiration
      [of "NewDispatcher 3153600000000000000 10000000000 :: nat Dispatcher" "''key''"
        1700000000000000000 1700000000000000001
        "\<lambda>n::nat. ((Some (1::nat), None :: unit option), Suc n)" 0 1700000000000000002]
  by (simp add: NewDispatcher_def new_call_def word_sless_alt word_sle_eq)

section \<open>Do and Remove, interleaved\<close>

text \<open>
  C8. \<^verbatim>\<open>Do\<close> reads \<^verbatim>\<open>d.calls[key]\<close> on line 40 after it has given up \<^verbatim>\<open>d.mu\<close> on
  line 38. When a \<^verbatim>\<open>Remove\<close> of the same key runs between the two lines, line 40
  reads the nil pointer and \<^verbatim>\<open>do\<close> panics, whatever the Dispatcher held before. Run
  without a \<^verbatim>\<open>Remove\<close> in between, \<^verbatim>\<open>Do\<close> always returns (\<open>Dispatcher_Do_returns\<close>).
\<close>

theorem Do_racing_Remove_panics:
  "Do_call now now' key fn (Dispatcher_Remove key (Do_lock key d)) w
     = Inl NilPointerDereference"
  by (simp add: Do_call_def)

end
